theory Spec2Isabelle
  imports Complex_Main
begin

section \<open>FinHelper: budgets, spend aggregation, categorisation and balance effects\<close>

text \<open>
  A shallow embedding of the parts of FinHelper that its specification makes claims
  about: \<^verbatim>\<open>app/api/budgets.py\<close>, \<^verbatim>\<open>app/api/transactions.py\<close>,
  \<^verbatim>\<open>app/services/categorizer.py\<close> and the response schema of
  \<^verbatim>\<open>app/schemas.py\<close>.

  Conventions of the model.
  \<^item> Python's \<^verbatim>\<open>float\<close> amounts are exact rationals (\<^typ>\<open>rat\<close>): the arithmetic and
    the comparisons are those of the source, the rounding error of IEEE arithmetic is not
    modelled.
  \<^item> Python's \<^verbatim>\<open>int\<close> is \<^typ>\<open>int\<close>; a \<^verbatim>\<open>str\<close> is a \<^typ>\<open>string\<close> whose characters are
    the code points 0 to 255.
  \<^item> An exception is a value \<open>Inl e\<close> of a sum type; \<^verbatim>\<open>None\<close> is \<^term>\<open>None\<close>.
  \<^item> The ORM session is a record of tables (lists of rows in storage order); a query is a
    filter over the list, \<^verbatim>\<open>.first()\<close> is the first row that passes.
\<close>

subsection \<open>Errors and arithmetic helpers\<close>

datatype error =
    ZeroDivisionError
  | ValueError
  | TypeError
  | AttributeError
  | LookupError
  | Re_error
  | ResponseValidationError
  | HTTPException nat

text \<open>Python's \<^verbatim>\<open>a / b\<close> on floats: raises on a zero divisor.\<close>

definition truediv :: "rat \<Rightarrow> rat \<Rightarrow> error + rat" where
  "truediv a b = (if b = 0 then Inl ZeroDivisionError else Inr (a / b))"

text \<open>
  Python's \<^verbatim>\<open>round(x, n)\<close>: to \<open>n\<close> decimal places, a tie going to the even
  neighbour.
\<close>

definition round_half_even :: "rat \<Rightarrow> int" where
  "round_half_even y =
     (let f = \<lfloor>y\<rfloor>; d = y - of_int f
      in if d < 1 / 2 then f
         else if 1 / 2 < d then f + 1
         else if even f then f else f + 1)"

definition py_round :: "rat \<Rightarrow> nat \<Rightarrow> rat" where
  "py_round x n = of_int (round_half_even (x * 10 ^ n)) / 10 ^ n"

subsection \<open>Dates\<close>

record datetime =
  dt_year :: nat
  dt_month :: nat
  dt_day :: nat
  dt_hour :: nat
  dt_minute :: nat
  dt_second :: nat
  dt_microsecond :: nat

definition is_leap :: "nat \<Rightarrow> bool" where
  "is_leap y = (y mod 4 = 0 \<and> (y mod 100 \<noteq> 0 \<or> y mod 400 = 0))"

definition days_in_month :: "nat \<Rightarrow> nat \<Rightarrow> nat" where
  "days_in_month y m =
     (if m = 2 then (if is_leap y then 29 else 28)
      else if m = 4 \<or> m = 6 \<or> m = 9 \<or> m = 11 then 30 else 31)"

text \<open>
  The constructor \<^verbatim>\<open>datetime(year, month, day)\<close>: midnight of that day, or
  \<^verbatim>\<open>ValueError\<close> when the date is outside \<^verbatim>\<open>0001-01-01 .. 9999-12-31\<close>.
\<close>

definition datetime_ymd :: "nat \<Rightarrow> nat \<Rightarrow> nat \<Rightarrow> error + datetime" where
  "datetime_ymd y m d =
     (if 1 \<le> y \<and> y \<le> 9999 \<and> 1 \<le> m \<and> m \<le> 12 \<and> 1 \<le> d \<and> d \<le> days_in_month y m
      then Inr \<lparr>dt_year = y, dt_month = m, dt_day = d, dt_hour = 0, dt_minute = 0,
                dt_second = 0, dt_microsecond = 0\<rparr>
      else Inl ValueError)"

text \<open>Datetimes compare field by field, the year first.\<close>

fun lex_less :: "nat list \<Rightarrow> nat list \<Rightarrow> bool" where
  "lex_less (a # as) (b # bs) = (a < b \<or> (a = b \<and> lex_less as bs))"
| "lex_less _ _ = False"

definition dt_fields :: "datetime \<Rightarrow> nat list" where
  "dt_fields t = [dt_year t, dt_month t, dt_day t, dt_hour t, dt_minute t, dt_second t,
                  dt_microsecond t]"

definition dt_less :: "datetime \<Rightarrow> datetime \<Rightarrow> bool" where
  "dt_less a b = lex_less (dt_fields a) (dt_fields b)"

definition dt_le :: "datetime \<Rightarrow> datetime \<Rightarrow> bool" where
  "dt_le a b = (\<not> dt_less b a)"

text \<open>What a stored timestamp satisfies, being a Python \<^verbatim>\<open>datetime\<close>.\<close>

definition valid_datetime :: "datetime \<Rightarrow> bool" where
  "valid_datetime t =
     (1 \<le> dt_year t \<and> dt_year t \<le> 9999 \<and> 1 \<le> dt_month t \<and> dt_month t \<le> 12 \<and>
      1 \<le> dt_day t \<and> dt_day t \<le> days_in_month (dt_year t) (dt_month t) \<and>
      dt_hour t < 24 \<and> dt_minute t < 60 \<and> dt_second t < 60 \<and> dt_microsecond t < 1000000)"

subsection \<open>The tables\<close>

datatype transaction_type = INCOME | EXPENSE | TRANSFER

text \<open>
  The members of the enum \<^verbatim>\<open>TransactionType\<close> (and of the schema's
  \<^verbatim>\<open>TransactionTypeSchema\<close>, which has the same members): \<^verbatim>\<open>.value\<close> and \<^verbatim>\<open>.name\<close>.
\<close>

fun type_value :: "transaction_type \<Rightarrow> string" where
  "type_value INCOME = ''income''"
| "type_value EXPENSE = ''expense''"
| "type_value TRANSFER = ''transfer''"

fun type_name :: "transaction_type \<Rightarrow> string" where
  "type_name INCOME = ''INCOME''"
| "type_name EXPENSE = ''EXPENSE''"
| "type_name TRANSFER = ''TRANSFER''"

text \<open>
  The column \<^verbatim>\<open>transaction_type\<close> is declared \<^verbatim>\<open>Enum(TransactionType)\<close>: what it holds
  is text, the name of a member. A row of the model carries that text. The ORM writes
  a string as it is (the type does not validate strings), and on loading a row it maps
  the text to the member of that name and raises \<^verbatim>\<open>LookupError\<close> for any other text.
\<close>

definition enum_load :: "string \<Rightarrow> error + transaction_type" where
  "enum_load s =
     (if s = ''INCOME'' then Inr INCOME
      else if s = ''EXPENSE'' then Inr EXPENSE
      else if s = ''TRANSFER'' then Inr TRANSFER
      else Inl LookupError)"

record category =
  cat_id :: int
  cat_name :: string
  cat_parent_id :: "int option"
  cat_icon :: "string option"
  cat_color :: "string option"
  cat_is_active :: bool

record account =
  acc_id :: int
  acc_name :: string
  acc_balance :: rat
  acc_is_active :: bool

record txn =
  tx_id :: int
  tx_timestamp :: datetime
  tx_account_id :: int
  tx_amount :: rat
  tx_type :: string
  tx_category_id :: "int option"
  tx_merchant :: "string option"
  tx_description :: "string option"
  tx_is_synced_to_sheets :: bool

record budget =
  bud_id :: int
  bud_category_id :: int
  bud_month :: string
  bud_amount_limit :: rat
  bud_amount_spent :: rat
  bud_is_active :: bool
  bud_alert_threshold :: rat
  bud_created_at :: datetime

record session =
  categories :: "category list"
  accounts :: "account list"
  transactions :: "txn list"
  budgets :: "budget list"

subsection \<open>Budget status (\<^verbatim>\<open>get_current_budget_status\<close>)\<close>

datatype budget_status = Over_budget | Near_limit | On_track

record budget_info =
  bi_id :: int
  bi_category :: string
  bi_budget_limit :: rat
  bi_amount_spent :: rat
  bi_remaining :: rat
  bi_percentage_used :: rat
  bi_status :: budget_status

text \<open>
  \<^verbatim>\<open>percentage_used = (current_spending / budget.amount_limit) * 100
       if budget.amount_limit > 0 else 0\<close>,
  with the division operator \<open>dv\<close> taken as an argument, so that a statement can say that
  a result does not depend on it.
\<close>

definition percentage_used_with ::
  "(rat \<Rightarrow> rat \<Rightarrow> error + rat) \<Rightarrow> rat \<Rightarrow> rat \<Rightarrow> error + rat" where
  "percentage_used_with dv limit current_spending =
     (if limit > 0
      then (case dv current_spending limit of Inl e \<Rightarrow> Inl e | Inr q \<Rightarrow> Inr (q * 100))
      else Inr 0)"

text \<open>
  \<^verbatim>\<open>status = "over_budget" if percentage_used > 100 else
            "near_limit" if percentage_used >= budget.alert_threshold * 100 else
            "on_track"\<close>
\<close>

definition derive_status :: "rat \<Rightarrow> rat \<Rightarrow> budget_status" where
  "derive_status percentage_used alert_threshold =
     (if percentage_used > 100 then Over_budget
      else if percentage_used \<ge> alert_threshold * 100 then Near_limit
      else On_track)"

text \<open>
  The body of the loop over the budgets, lines 205 to 220 of \<^verbatim>\<open>budgets.py\<close>, for a
  budget whose category relation has the name \<open>cname\<close> (\<^term>\<open>None\<close>: no category row).
\<close>

definition budget_entry_with ::
  "(rat \<Rightarrow> rat \<Rightarrow> error + rat) \<Rightarrow> budget \<Rightarrow> string option \<Rightarrow> rat \<Rightarrow> error + budget_info" where
  "budget_entry_with dv b cname current_spending =
     (case percentage_used_with dv (bud_amount_limit b) current_spending of
        Inl e \<Rightarrow> Inl e
      | Inr percentage_used \<Rightarrow>
          Inr \<lparr>bi_id = bud_id b,
               bi_category = (case cname of Some n \<Rightarrow> n | None \<Rightarrow> ''Unknown''),
               bi_budget_limit = bud_amount_limit b,
               bi_amount_spent = current_spending,
               bi_remaining = bud_amount_limit b - current_spending,
               bi_percentage_used = py_round percentage_used 1,
               bi_status = derive_status percentage_used (bud_alert_threshold b)\<rparr>)"

definition budget_entry :: "budget \<Rightarrow> string option \<Rightarrow> rat \<Rightarrow> error + budget_info" where
  "budget_entry = budget_entry_with truediv"

definition percentage_used :: "rat \<Rightarrow> rat \<Rightarrow> error + rat" where
  "percentage_used = percentage_used_with truediv"

subsection \<open>Spend aggregation (\<^verbatim>\<open>_calculate_current_spending\<close>)\<close>

definition is_digit :: "char \<Rightarrow> bool" where
  "is_digit c = (48 \<le> (of_char c :: nat) \<and> (of_char c :: nat) \<le> 57)"

definition digit_val :: "char \<Rightarrow> nat" where
  "digit_val c = of_char c - 48"

text \<open>\<^verbatim>\<open>s.split(sep)\<close> for a separator of one character.\<close>

fun split_on :: "char \<Rightarrow> string \<Rightarrow> string list" where
  "split_on sep [] = [[]]"
| "split_on sep (c # cs) =
     (if c = sep then [] # split_on sep cs
      else (case split_on sep cs of p # ps \<Rightarrow> (c # p) # ps | [] \<Rightarrow> [[c]]))"

text \<open>
  \<^verbatim>\<open>int(s)\<close> on a string of decimal digits. The other spellings that \<^verbatim>\<open>int\<close> accepts
  (a sign, surrounding blanks, underscores) do not occur in a month of the form
  \<^verbatim>\<open>YYYY-MM\<close>; the model answers \<^verbatim>\<open>ValueError\<close> for them.
\<close>

definition py_int :: "string \<Rightarrow> error + nat" where
  "py_int s =
     (if s \<noteq> [] \<and> list_all is_digit s
      then Inr (foldl (\<lambda>a c. 10 * a + digit_val c) 0 s)
      else Inl ValueError)"

text \<open>\<^verbatim>\<open>year, month_num = map(int, month.split('-'))\<close>\<close>

definition parse_month :: "string \<Rightarrow> error + nat \<times> nat" where
  "parse_month month =
     (case split_on CHR ''-'' month of
        [a, b] \<Rightarrow>
          (case py_int a of
             Inl e \<Rightarrow> Inl e
           | Inr year \<Rightarrow> (case py_int b of Inl e \<Rightarrow> Inl e | Inr month_num \<Rightarrow> Inr (year, month_num)))
      | _ \<Rightarrow> Inl ValueError)"

text \<open>The date range of the \<^verbatim>\<open>try\<close> block: \<^verbatim>\<open>start_date\<close> and \<^verbatim>\<open>end_date\<close>.\<close>

definition date_range :: "string \<Rightarrow> error + datetime \<times> datetime" where
  "date_range month =
     (case parse_month month of
        Inl e \<Rightarrow> Inl e
      | Inr (year, month_num) \<Rightarrow>
          (case datetime_ymd year month_num 1 of
             Inl e \<Rightarrow> Inl e
           | Inr start_date \<Rightarrow>
               (case (if month_num = 12 then datetime_ymd (year + 1) 1 1
                      else datetime_ymd year (month_num + 1) 1) of
                  Inl e \<Rightarrow> Inl e
                | Inr end_date \<Rightarrow> Inr (start_date, end_date))))"

text \<open>SQL's \<^verbatim>\<open>SUM\<close> is \<^verbatim>\<open>NULL\<close> over no rows; \<^verbatim>\<open>spending or 0.0\<close> replaces a falsy sum.\<close>

definition sql_sum :: "rat list \<Rightarrow> rat option" where
  "sql_sum xs = (if xs = [] then None else Some (sum_list xs))"

definition or_zero :: "rat option \<Rightarrow> rat" where
  "or_zero s = (case s of None \<Rightarrow> 0 | Some v \<Rightarrow> if v = 0 then 0 else v)"

text \<open>
  The filter of the query. The comparison \<^verbatim>\<open>Transaction.transaction_type == "expense"\<close>
  is made by the database, between the text of the column and the string
  \<^verbatim>\<open>expense\<close>, which the ORM binds as it is.
\<close>

definition spending_row :: "int \<Rightarrow> datetime \<Rightarrow> datetime \<Rightarrow> txn \<Rightarrow> bool" where
  "spending_row category_id start_date end_date t =
     (tx_category_id t = Some category_id \<and>
      tx_type t = ''expense'' \<and>
      dt_le start_date (tx_timestamp t) \<and>
      dt_less (tx_timestamp t) end_date)"

text \<open>Any exception of the \<^verbatim>\<open>try\<close> block is caught and answered with \<^verbatim>\<open>0.0\<close>.\<close>

definition calculate_current_spending :: "session \<Rightarrow> int \<Rightarrow> string \<Rightarrow> rat" where
  "calculate_current_spending db category_id month =
     (case date_range month of
        Inl e \<Rightarrow> 0
      | Inr (start_date, end_date) \<Rightarrow>
          or_zero (sql_sum (map tx_amount
            (filter (spending_row category_id start_date end_date) (transactions db)))))"

text \<open>
  The month's range in the specification's words: from the first day of the month to
  the first day of the next month, the year rolling over after December.
\<close>

definition midnight :: "nat \<Rightarrow> nat \<Rightarrow> nat \<Rightarrow> datetime" where
  "midnight y m d = \<lparr>dt_year = y, dt_month = m, dt_day = d, dt_hour = 0, dt_minute = 0,
                     dt_second = 0, dt_microsecond = 0\<rparr>"

definition first_day_of_month :: "nat \<Rightarrow> nat \<Rightarrow> datetime" where
  "first_day_of_month y m = midnight y m 1"

definition first_day_of_next_month :: "nat \<Rightarrow> nat \<Rightarrow> datetime" where
  "first_day_of_next_month y m = (if m = 12 then midnight (y + 1) 1 1 else midnight y (m + 1) 1)"

definition in_month_range :: "nat \<Rightarrow> nat \<Rightarrow> datetime \<Rightarrow> bool" where
  "in_month_range y m t =
     (dt_le (first_day_of_month y m) t \<and> dt_less t (first_day_of_next_month y m))"

text \<open>A month string of the form \<^verbatim>\<open>YYYY-MM\<close>, and the numbers it spells.\<close>

definition is_month_form :: "string \<Rightarrow> bool" where
  "is_month_form s =
     (case s of
        [a, b, c, d, h, e, f] \<Rightarrow> list_all is_digit [a, b, c, d, e, f] \<and> h = CHR ''-''
      | _ \<Rightarrow> False)"

definition digits_value :: "string \<Rightarrow> nat" where
  "digits_value s = foldl (\<lambda>a c. 10 * a + digit_val c) 0 s"

definition month_year :: "string \<Rightarrow> nat" where
  "month_year s = digits_value (take 4 s)"

definition month_number :: "string \<Rightarrow> nat" where
  "month_number s = digits_value (drop 5 s)"

text \<open>
  The endpoint: the active budgets of the current month, each with its spend recomputed
  and stored, and the entry derived from it. An exception of an entry ends the request.
  The totals and the alert messages that the endpoint derives from these entries are
  not part of the model.
\<close>

definition get_current_budget_status ::
  "string \<Rightarrow> session \<Rightarrow> (error + budget_info list) \<times> session" where
  "get_current_budget_status current_month db =
     (let selected = (\<lambda>b. bud_month b = current_month \<and> bud_is_active b);
          spend = (\<lambda>b. calculate_current_spending db (bud_category_id b) (bud_month b));
          entry = (\<lambda>b. budget_entry b
                     (map_option cat_name (find (\<lambda>c. cat_id c = bud_category_id b) (categories db)))
                     (spend b));
          entries = map entry (filter selected (budgets db))
      in case find isl entries of
           Some (Inl e) \<Rightarrow> (Inl e, db)
         | _ \<Rightarrow> (Inr (map projr entries),
                 db\<lparr>budgets := map (\<lambda>b. if selected b then b\<lparr>bud_amount_spent := spend b\<rparr> else b)
                                   (budgets db)\<rparr>))"

subsection \<open>Strings\<close>

text \<open>\<^verbatim>\<open>str.lower\<close> and \<^verbatim>\<open>str.strip\<close> on the code points 0 to 255.\<close>

definition lower_char :: "char \<Rightarrow> char" where
  "lower_char c =
     (let n = (of_char c :: nat)
      in if (65 \<le> n \<and> n \<le> 90) \<or> (192 \<le> n \<and> n \<le> 222 \<and> n \<noteq> 215) then char_of (n + 32) else c)"

definition lower :: "string \<Rightarrow> string" where
  "lower s = map lower_char s"

definition is_space :: "char \<Rightarrow> bool" where
  "is_space c =
     (let n = (of_char c :: nat)
      in (9 \<le> n \<and> n \<le> 13) \<or> (28 \<le> n \<and> n \<le> 32) \<or> n = 133 \<or> n = 160)"

definition strip :: "string \<Rightarrow> string" where
  "strip s = rev (dropWhile is_space (rev (dropWhile is_space s)))"

text \<open>\<^verbatim>\<open>k in text\<close>: \<open>k\<close> occurs in \<open>text\<close> as a contiguous piece.\<close>

fun starts_with :: "string \<Rightarrow> string \<Rightarrow> bool" where
  "starts_with [] t = True"
| "starts_with (k # ks) [] = False"
| "starts_with (k # ks) (c # cs) = (k = c \<and> starts_with ks cs)"

fun contains :: "string \<Rightarrow> string \<Rightarrow> bool" where
  "contains k [] = (k = [])"
| "contains k (c # cs) = (starts_with k (c # cs) \<or> contains k cs)"

text \<open>The truth value of an optional string: \<^verbatim>\<open>None\<close> and \<^verbatim>\<open>""\<close> are falsy.\<close>

definition truthy :: "string option \<Rightarrow> bool" where
  "truthy s = (case s of None \<Rightarrow> False | Some v \<Rightarrow> v \<noteq> [])"

definition or_empty :: "string option \<Rightarrow> string" where
  "or_empty s = (case s of None \<Rightarrow> [] | Some v \<Rightarrow> v)"

subsection \<open>The type text that \<^verbatim>\<open>create_transaction\<close> stores\<close>

text \<open>
  Lines 56 and 66 to 68 of \<^verbatim>\<open>transactions.py\<close>:
  \<^verbatim>\<open>v = kwargs["transaction_type"].strip()
  kwargs["transaction_type"] = TRANSACTION_TYPE_MAP.get(v.lower(), v.upper())\<close>
  applied to the value of the request's type, a member of the schema enum. The row is
  then built from that string, so the column holds it. \<^verbatim>\<open>str.upper\<close> is applied to the
  values of the enum only, which are ASCII.
\<close>

definition TRANSACTION_TYPE_MAP :: "(string \<times> string) list" where
  "TRANSACTION_TYPE_MAP =
     [(''income'', ''INCOME''), (''expense'', ''EXPENSE''), (''transfer'', ''TRANSFER'')]"

definition upper_char :: "char \<Rightarrow> char" where
  "upper_char c =
     (let n = (of_char c :: nat) in if 97 \<le> n \<and> n \<le> 122 then char_of (n - 32) else c)"

definition upper :: "string \<Rightarrow> string" where
  "upper s = map upper_char s"

definition normalize_type :: "transaction_type \<Rightarrow> string" where
  "normalize_type ty =
     (let v = strip (type_value ty)
      in case map_of TRANSACTION_TYPE_MAP (lower v) of Some n \<Rightarrow> n | None \<Rightarrow> upper v)"

subsection \<open>Rules and matching (\<^verbatim>\<open>AutoCategorizer._matches_rule\<close>)\<close>

text \<open>
  A rule is the dictionary of the rule file; an absent \<^verbatim>\<open>keywords\<close> or \<^verbatim>\<open>patterns\<close>
  entry is the empty list that \<^verbatim>\<open>rule.get(..., [])\<close> returns for it, an absent
  \<^verbatim>\<open>category_name\<close> is \<^term>\<open>None\<close>.
\<close>

record rule =
  rule_keywords :: "string list"
  rule_patterns :: "string list"
  rule_category_name :: "string option"
  rule_transaction_type :: "string option"

text \<open>
  \<^verbatim>\<open>re.search(pattern, text, re.IGNORECASE)\<close> belongs to Python's library. The matcher
  takes it as the argument \<open>re_search\<close>: \<open>Inr True\<close> for a match, \<open>Inr False\<close> for none,
  \<open>Inl Re_error\<close> for a pattern that does not compile.
\<close>

type_synonym regex_search = "string \<Rightarrow> string \<Rightarrow> error + bool"

fun search_patterns :: "regex_search \<Rightarrow> string \<Rightarrow> string list \<Rightarrow> error + bool" where
  "search_patterns re_search text [] = Inr False"
| "search_patterns re_search text (pattern # rest) =
     (case re_search (lower pattern) text of
        Inl e \<Rightarrow> Inl e
      | Inr found \<Rightarrow> if found then Inr True else search_patterns re_search text rest)"

definition matches_rule :: "regex_search \<Rightarrow> string \<Rightarrow> rule \<Rightarrow> error + bool" where
  "matches_rule re_search text rule =
     (if list_ex (\<lambda>keyword. contains (lower keyword) text) (rule_keywords rule) then Inr True
      else search_patterns re_search text (rule_patterns rule))"

subsection \<open>A fragment of the regular expressions of \<^verbatim>\<open>re\<close>\<close>

text \<open>
  For statements at concrete patterns: literal characters, \<^verbatim>\<open>.\<close>, the classes
  \<^verbatim>\<open>\d\<close> and \<^verbatim>\<open>\D\<close>, and a postfix \<^verbatim>\<open>*\<close>, searched anywhere in the text without
  regard to case. A pattern outside this fragment is answered \<open>Inl Re_error\<close>, which is
  what \<^verbatim>\<open>re\<close> does for the malformed ones among them (a dangling backslash, a star with
  nothing to repeat); the statements below use patterns inside the fragment only.
\<close>

datatype rx_atom = Lit char | Dot | Digit | Non_digit

datatype rx_token = TAtom rx_atom | TStar

datatype rx_item = Once rx_atom | Many rx_atom

definition is_meta :: "char \<Rightarrow> bool" where
  "is_meta c =
     (c \<in> set [CHR 0x5C, CHR ''.'', CHR ''*'', CHR ''+'', CHR ''?'', CHR ''('', CHR '')'',
                CHR ''['', CHR '']'', CHR ''{'', CHR ''}'', CHR ''|'', CHR ''^'', CHR ''$''])"

fun rx_tokens :: "string \<Rightarrow> rx_token list option" where
  "rx_tokens [] = Some []"
| "rx_tokens [c] =
     (if c = CHR ''*'' then Some [TStar]
      else if c = CHR ''.'' then Some [TAtom Dot]
      else if is_meta c then None
      else Some [TAtom (Lit c)])"
| "rx_tokens (c # d # r) =
     (if c = CHR 0x5C then
        (if d = CHR ''d'' then map_option ((#) (TAtom Digit)) (rx_tokens r)
         else if d = CHR ''D'' then map_option ((#) (TAtom Non_digit)) (rx_tokens r)
         else None)
      else if c = CHR ''*'' then map_option ((#) TStar) (rx_tokens (d # r))
      else if c = CHR ''.'' then map_option ((#) (TAtom Dot)) (rx_tokens (d # r))
      else if is_meta c then None
      else map_option ((#) (TAtom (Lit c))) (rx_tokens (d # r)))"

fun rx_items :: "rx_token list \<Rightarrow> rx_item list option" where
  "rx_items [] = Some []"
| "rx_items (TAtom a # TStar # ts) = map_option ((#) (Many a)) (rx_items ts)"
| "rx_items (TAtom a # ts) = map_option ((#) (Once a)) (rx_items ts)"
| "rx_items (TStar # ts) = None"

fun atom_matches :: "rx_atom \<Rightarrow> char \<Rightarrow> bool" where
  "atom_matches (Lit c) x = (lower_char c = lower_char x)"
| "atom_matches Dot x = (x \<noteq> CHR 0x0A)"
| "atom_matches Digit x = is_digit x"
| "atom_matches Non_digit x = (\<not> is_digit x)"

fun match_here :: "rx_item list \<Rightarrow> string \<Rightarrow> bool" where
  "match_here [] s = True"
| "match_here (Once a # r) [] = False"
| "match_here (Once a # r) (c # cs) = (atom_matches a c \<and> match_here r cs)"
| "match_here (Many a # r) [] = match_here r []"
| "match_here (Many a # r) (c # cs) =
     (match_here r (c # cs) \<or> (atom_matches a c \<and> match_here (Many a # r) cs))"

fun search_anywhere :: "rx_item list \<Rightarrow> string \<Rightarrow> bool" where
  "search_anywhere items [] = match_here items []"
| "search_anywhere items (c # cs) = (match_here items (c # cs) \<or> search_anywhere items cs)"

definition re_search_fragment :: regex_search where
  "re_search_fragment pattern text =
     (case rx_tokens pattern of
        None \<Rightarrow> Inl Re_error
      | Some ts \<Rightarrow>
          (case rx_items ts of
             None \<Rightarrow> Inl Re_error
           | Some items \<Rightarrow> Inr (search_anywhere items text)))"

subsection \<open>Categories (\<^verbatim>\<open>AutoCategorizer._get_or_create_category\<close>)\<close>

text \<open>
  The identifier that the store gives a new row: one more than the largest in the table.
\<close>

definition next_category_id :: "category list \<Rightarrow> int" where
  "next_category_id cs = fold max (map cat_id cs) 0 + 1"

text \<open>
  The session argument is optional in the source (\<^verbatim>\<open>db: Session = None\<close>); without one
  the function returns \<^verbatim>\<open>None\<close>. With one, the query, the insert and the commit are the
  operations on the table; a failure of the storage layer itself is outside the model.
\<close>

definition get_or_create_category ::
  "string \<Rightarrow> session option \<Rightarrow> category option \<times> session option" where
  "get_or_create_category category_name db =
     (case db of
        None \<Rightarrow> (None, None)
      | Some d \<Rightarrow>
          (case find (\<lambda>c. cat_name c = category_name) (categories d) of
             Some category \<Rightarrow> (Some category, Some d)
           | None \<Rightarrow>
               (let category = \<lparr>cat_id = next_category_id (categories d),
                                cat_name = category_name, cat_parent_id = None,
                                cat_icon = None, cat_color = None, cat_is_active = True\<rparr>
                in (Some category, Some (d\<lparr>categories := categories d @ [category]\<rparr>)))))"

subsection \<open>Classification (\<^verbatim>\<open>AutoCategorizer.categorize_transaction\<close>)\<close>

text \<open>
  The rule table is a Python dictionary, which iterates in insertion order: a list of
  pairs of a rule name and a rule.
\<close>

type_synonym rules = "(string \<times> rule) list"

text \<open>The loop over \<^verbatim>\<open>self.rules.items()\<close>.\<close>

fun scan_rules ::
  "regex_search \<Rightarrow> string \<Rightarrow> rules \<Rightarrow> session option \<Rightarrow> (error + int option) \<times> session option" where
  "scan_rules re_search text [] db = (Inr None, db)"
| "scan_rules re_search text ((rule_key, rule) # rest) db =
     (case matches_rule re_search text rule of
        Inl e \<Rightarrow> (Inl e, db)
      | Inr matched \<Rightarrow>
          if matched then
            (if truthy (rule_category_name rule) then
               (case get_or_create_category (or_empty (rule_category_name rule)) db of
                  (Some category, db') \<Rightarrow> (Inr (Some (cat_id category)), db')
                | (None, db') \<Rightarrow> scan_rules re_search text rest db')
             else scan_rules re_search text rest db)
          else scan_rules re_search text rest db)"

definition text_to_analyze :: "string option \<Rightarrow> string option \<Rightarrow> string" where
  "text_to_analyze merchant description =
     strip (lower (or_empty merchant @ '' '' @ or_empty description))"

definition categorize_transaction ::
  "regex_search \<Rightarrow> rules \<Rightarrow> string option \<Rightarrow> string option \<Rightarrow> rat \<Rightarrow> session option
     \<Rightarrow> (error + int option) \<times> session option" where
  "categorize_transaction re_search rules merchant description amount db =
     (if \<not> truthy merchant \<and> \<not> truthy description then (Inr None, db)
      else if text_to_analyze merchant description = [] then (Inr None, db)
      else scan_rules re_search (text_to_analyze merchant description) rules db)"

subsection \<open>The rule store (\<^verbatim>\<open>add_custom_rule\<close>, \<^verbatim>\<open>get_all_rules\<close>, \<^verbatim>\<open>delete_rule\<close>)\<close>

text \<open>\<^verbatim>\<open>d[k] = v\<close> keeps the place of a key that is present and appends a new one.\<close>

fun dict_set :: "'k \<Rightarrow> 'v \<Rightarrow> ('k \<times> 'v) list \<Rightarrow> ('k \<times> 'v) list" where
  "dict_set k v [] = [(k, v)]"
| "dict_set k v ((k', v') # rest) =
     (if k' = k then (k, v) # rest else (k', v') # dict_set k v rest)"

definition dict_has :: "'k \<Rightarrow> ('k \<times> 'v) list \<Rightarrow> bool" where
  "dict_has k d = (k \<in> fst ` set d)"

definition dict_del :: "'k \<Rightarrow> ('k \<times> 'v) list \<Rightarrow> ('k \<times> 'v) list" where
  "dict_del k d = filter (\<lambda>kv. fst kv \<noteq> k) d"

text \<open>
  The backing file holds what \<^verbatim>\<open>yaml.dump\<close> wrote, or is absent. The serialisation is
  the library's: it is the argument \<open>dump\<close>. Each write is attempted under
  \<^verbatim>\<open>try\<close>/\<^verbatim>\<open>except\<close>, which prints the exception and goes on; how the attempt ends is
  an input: the write succeeds, \<^verbatim>\<open>open\<close> fails and the file stays as it was, or the dump
  fails after \<^verbatim>\<open>open\<close> has truncated the file, leaving some partial content.
\<close>

datatype 'c file_state = Absent | Holds 'c

datatype 'c write_outcome = Write_ok | Open_fails | Dump_fails 'c

definition write_rules ::
  "(rules \<Rightarrow> 'c) \<Rightarrow> 'c write_outcome \<Rightarrow> rules \<Rightarrow> 'c file_state \<Rightarrow> 'c file_state" where
  "write_rules dump outcome rs file =
     (case outcome of
        Write_ok \<Rightarrow> Holds (dump rs)
      | Open_fails \<Rightarrow> file
      | Dump_fails partial \<Rightarrow> Holds partial)"

record 'c categorizer =
  rules_table :: rules
  rules_file :: "'c file_state"

definition add_custom_rule ::
  "(rules \<Rightarrow> 'c) \<Rightarrow> 'c write_outcome \<Rightarrow> string \<Rightarrow> string list \<Rightarrow> string list \<Rightarrow> string
     \<Rightarrow> 'c categorizer \<Rightarrow> 'c categorizer" where
  "add_custom_rule dump outcome rule_name keywords patterns category_name self =
     (let rs = dict_set rule_name
                 \<lparr>rule_keywords = keywords, rule_patterns = patterns,
                  rule_category_name = Some category_name, rule_transaction_type = None\<rparr>
                 (rules_table self)
      in \<lparr>rules_table = rs, rules_file = write_rules dump outcome rs (rules_file self)\<rparr>)"

definition get_all_rules :: "'c categorizer \<Rightarrow> rules" where
  "get_all_rules self = rules_table self"

definition delete_rule ::
  "(rules \<Rightarrow> 'c) \<Rightarrow> 'c write_outcome \<Rightarrow> string \<Rightarrow> 'c categorizer \<Rightarrow> 'c categorizer" where
  "delete_rule dump outcome rule_name self =
     (if dict_has rule_name (rules_table self) then
        (let rs = dict_del rule_name (rules_table self)
         in \<lparr>rules_table = rs, rules_file = write_rules dump outcome rs (rules_file self)\<rparr>)
      else self)"

subsection \<open>Editing a transaction (\<^verbatim>\<open>update_transaction\<close>)\<close>

text \<open>
  \<^verbatim>\<open>transaction_update.dict(exclude_unset=True)\<close>: a field is absent (\<^term>\<open>None\<close>), or
  present with a value or with an explicit null (\<open>Some None\<close>).
\<close>

record transaction_update =
  upd_timestamp :: "datetime option option"
  upd_amount :: "rat option option"
  upd_transaction_type :: "transaction_type option option"
  upd_category_id :: "int option option"
  upd_merchant :: "string option option"
  upd_description :: "string option option"

text \<open>\<^verbatim>\<open>setattr\<close> of one column: the stored value unless the update carries the field.\<close>

definition set_field :: "'a option option \<Rightarrow> 'a option \<Rightarrow> 'a option" where
  "set_field u old = (case u of None \<Rightarrow> old | Some v \<Rightarrow> v)"

text \<open>
  The two steps on the account's balance. The account is the result of \<^verbatim>\<open>.first()\<close>,
  so it may be \<^verbatim>\<open>None\<close>, on which an attribute access raises.
\<close>

definition reverse_effect ::
  "transaction_type \<Rightarrow> rat \<Rightarrow> account option \<Rightarrow> error + account option" where
  "reverse_effect old_type old_amount acc =
     (if type_value old_type = ''income'' then
        (case acc of
           None \<Rightarrow> Inl AttributeError
         | Some a \<Rightarrow> Inr (Some (a\<lparr>acc_balance := acc_balance a - old_amount\<rparr>)))
      else if type_value old_type = ''expense'' then
        (case acc of
           None \<Rightarrow> Inl AttributeError
         | Some a \<Rightarrow> Inr (Some (a\<lparr>acc_balance := acc_balance a + old_amount\<rparr>)))
      else Inr acc)"

definition apply_effect ::
  "transaction_type option \<Rightarrow> rat option \<Rightarrow> account option \<Rightarrow> error + account option" where
  "apply_effect new_type new_amount acc =
     (case new_type of
        None \<Rightarrow> Inl AttributeError
      | Some ty \<Rightarrow>
          if type_value ty = ''income'' then
            (case acc of
               None \<Rightarrow> Inl AttributeError
             | Some a \<Rightarrow>
                 (case new_amount of
                    None \<Rightarrow> Inl TypeError
                  | Some x \<Rightarrow> Inr (Some (a\<lparr>acc_balance := acc_balance a + x\<rparr>))))
          else if type_value ty = ''expense'' then
            (case acc of
               None \<Rightarrow> Inl AttributeError
             | Some a \<Rightarrow>
                 (case new_amount of
                    None \<Rightarrow> Inl TypeError
                  | Some x \<Rightarrow> Inr (Some (a\<lparr>acc_balance := acc_balance a - x\<rparr>))))
          else Inr acc)"

text \<open>Writing a changed row back in the place of the first row that passes \<open>P\<close>.\<close>

fun replace_first :: "('a \<Rightarrow> bool) \<Rightarrow> 'a \<Rightarrow> 'a list \<Rightarrow> 'a list" where
  "replace_first P y [] = []"
| "replace_first P y (x # xs) = (if P x then y # xs else x # replace_first P y xs)"

text \<open>
  The handler. \<^verbatim>\<open>.first()\<close> loads the row, which raises when the text of its type
  column is not the name of a member. The attribute \<^verbatim>\<open>transaction_type\<close> is then the
  loaded member or, when the update carries the field, the member of the schema enum;
  \<^verbatim>\<open>.value\<close> reads either. The commit writes the columns that were set: for the type,
  the schema member is a string, its value, and the column receives that text. The
  commit refuses a null in a column declared \<^verbatim>\<open>nullable=False\<close>. Every exception of
  the body, the 404 included, is caught by \<^verbatim>\<open>except Exception\<close>, which rolls the session
  back and answers 500.
\<close>

definition update_transaction ::
  "int \<Rightarrow> transaction_update \<Rightarrow> session \<Rightarrow> (error + unit) \<times> session" where
  "update_transaction transaction_id u db =
     (case find (\<lambda>t. tx_id t = transaction_id) (transactions db) of
        None \<Rightarrow> (Inl (HTTPException 500), db)
      | Some t \<Rightarrow>
          (case enum_load (tx_type t) of
             Inl e \<Rightarrow> (Inl (HTTPException 500), db)
           | Inr old_type \<Rightarrow>
               (let old_amount = tx_amount t;
                    new_timestamp = set_field (upd_timestamp u) (Some (tx_timestamp t));
                    new_amount = set_field (upd_amount u) (Some (tx_amount t));
                    new_type = set_field (upd_transaction_type u) (Some old_type);
                    balance_step =
                      (if upd_amount u \<noteq> None \<or> upd_transaction_type u \<noteq> None then
                         (let account = find (\<lambda>a. acc_id a = tx_account_id t) (accounts db)
                          in case reverse_effect old_type old_amount account of
                               Inl e \<Rightarrow> Inl e
                             | Inr account' \<Rightarrow> apply_effect new_type new_amount account')
                       else Inr None)
                in case balance_step of
                     Inl e \<Rightarrow> (Inl (HTTPException 500), db)
                   | Inr account \<Rightarrow>
                       (case (new_timestamp, new_amount, new_type) of
                          (Some ts, Some am, Some ty) \<Rightarrow>
                            (Inr (),
                             db\<lparr>transactions :=
                                  replace_first (\<lambda>x. tx_id x = transaction_id)
                                    (t\<lparr>tx_timestamp := ts, tx_amount := am,
                                       tx_type :=
                                         (if upd_transaction_type u = None then tx_type t
                                          else type_value ty),
                                       tx_category_id :=
                                         set_field (upd_category_id u) (tx_category_id t),
                                       tx_merchant := set_field (upd_merchant u) (tx_merchant t),
                                       tx_description :=
                                         set_field (upd_description u) (tx_description t),
                                       tx_is_synced_to_sheets := False\<rparr>)
                                    (transactions db),
                                accounts :=
                                  (case account of
                                     None \<Rightarrow> accounts db
                                   | Some a \<Rightarrow>
                                       replace_first (\<lambda>x. acc_id x = tx_account_id t) a
                                         (accounts db))\<rparr>)
                        | _ \<Rightarrow> (Inl (HTTPException 500), db)))))"

subsection \<open>Reading budgets (\<^verbatim>\<open>get_budgets\<close>, \<^verbatim>\<open>get_budget\<close>) and the \<^verbatim>\<open>Budget\<close> schema\<close>















subsection \<open>The months the aggregation can reach\<close>

text \<open>
  A month whose first day and whose following first day are both dates of the calendar
  of \<^verbatim>\<open>datetime\<close>: every month from 0001-01 to 9999-11.
\<close>

definition month_in_reach :: "nat \<Rightarrow> nat \<Rightarrow> bool" where
  "month_in_reach y m = (1 \<le> y \<and> y \<le> 9999 \<and> 1 \<le> m \<and> m \<le> 12 \<and> (y, m) \<noteq> (9999, 12))"

text \<open>
  The rows that the specification sums: the category's expenses whose timestamp lies in
  the month's range. A row is an expense when its type column holds the name of the
  member, as \<^verbatim>\<open>create_transaction\<close> stores it, or its value, as an edit stores it.
\<close>

definition is_expense_row :: "txn \<Rightarrow> bool" where
  "is_expense_row t = (tx_type t = type_name EXPENSE \<or> tx_type t = type_value EXPENSE)"

definition month_spend_row :: "int \<Rightarrow> nat \<Rightarrow> nat \<Rightarrow> txn \<Rightarrow> bool" where
  "month_spend_row category_id y m t =
     (tx_category_id t = Some category_id \<and> is_expense_row t \<and>
      in_month_range y m (tx_timestamp t))"

subsection \<open>Rules that classification passes over\<close>

text \<open>
  A rule is passed over when it does not match the text, or when it matches and has no
  category name (absent or empty): the loop then goes on to the next rule.
\<close>

definition passed_over :: "regex_search \<Rightarrow> string \<Rightarrow> rule \<Rightarrow> bool" where
  "passed_over re_search text r =
     (matches_rule re_search text r = Inr False \<or>
      (matches_rule re_search text r = Inr True \<and> \<not> truthy (rule_category_name r)))"


subsection \<open>Concrete inputs\<close>

definition budget_1000 :: budget where
  "budget_1000 =
     \<lparr>bud_id = 1, bud_category_id = 7, bud_month = ''2024-02'', bud_amount_limit = 1000,
      bud_amount_spent = 0, bud_is_active = True, bud_alert_threshold = 4 / 5,
      bud_created_at = midnight 2024 2 1\<rparr>"

definition budget_zero_limit :: budget where
  "budget_zero_limit = budget_1000\<lparr>bud_amount_limit := 0\<rparr>"

text \<open>
  A row as \<^verbatim>\<open>create_transaction\<close> stores it, with the type text that
  \<^term>\<open>normalize_type\<close> gives, and a row whose type text is the value that
  \<^verbatim>\<open>update_transaction\<close> writes.
\<close>

definition row_at :: "int \<Rightarrow> datetime \<Rightarrow> rat \<Rightarrow> string \<Rightarrow> int \<Rightarrow> txn" where
  "row_at i ts amt type_text cat =
     \<lparr>tx_id = i, tx_timestamp = ts, tx_account_id = 1, tx_amount = amt, tx_type = type_text,
      tx_category_id = Some cat, tx_merchant = None, tx_description = None,
      tx_is_synced_to_sheets = False\<rparr>"

definition created_row :: "int \<Rightarrow> datetime \<Rightarrow> rat \<Rightarrow> transaction_type \<Rightarrow> int \<Rightarrow> txn" where
  "created_row i ts amt ty cat = row_at i ts amt (normalize_type ty) cat"

definition edited_row :: "int \<Rightarrow> datetime \<Rightarrow> rat \<Rightarrow> transaction_type \<Rightarrow> int \<Rightarrow> txn" where
  "edited_row i ts amt ty cat = row_at i ts amt (type_value ty) cat"

definition ledger_2024 :: session where
  "ledger_2024 =
     \<lparr>categories = [], accounts = [],
      transactions =
        [created_row 1 (midnight 2024 2 10) 30 EXPENSE 7,
         created_row 2 (midnight 2024 3 1) 70 EXPENSE 7,
         created_row 3 (midnight 2024 2 11) 500 INCOME 7,
         created_row 4
           ((midnight 2024 2 29)\<lparr>dt_hour := 23, dt_minute := 59, dt_second := 59\<rparr>)
           12 EXPENSE 7],
      budgets = []\<rparr>"

definition ledger_9999 :: session where
  "ledger_9999 =
     \<lparr>categories = [], accounts = [],
      transactions = [edited_row 1 (midnight 9999 12 15) 50 EXPENSE 7],
      budgets = []\<rparr>"

definition session_empty :: session where
  "session_empty = \<lparr>categories = [], accounts = [], transactions = [], budgets = []\<rparr>"

definition keyword_rule :: "string \<Rightarrow> string \<Rightarrow> rule" where
  "keyword_rule k cn =
     \<lparr>rule_keywords = [k], rule_patterns = [], rule_category_name = Some cn,
      rule_transaction_type = None\<rparr>"

definition rules_unnamed_first :: rules where
  "rules_unnamed_first =
     [(''promo'', keyword_rule ''coffee'' []),
      (''dining'', keyword_rule ''coffee'' ''Food & Dining'')]"

definition rules_two_named :: rules where
  "rules_two_named =
     [(''fuel'', keyword_rule ''petrol'' ''Transportation''),
      (''dining'', keyword_rule ''coffee'' ''Food & Dining''),
      (''shops'', keyword_rule ''shop'' ''Shopping'')]"

text \<open>The pattern \<^verbatim>\<open>\D\<close>, one character that is not a digit.\<close>

definition pattern_non_digit :: string where
  "pattern_non_digit = [CHR 0x5C, CHR ''D'']"

definition rule_non_digit :: rule where
  "rule_non_digit =
     \<lparr>rule_keywords = [], rule_patterns = [pattern_non_digit],
      rule_category_name = Some ''Reference'', rule_transaction_type = None\<rparr>"

definition store_dining :: "rules categorizer" where
  "store_dining =
     \<lparr>rules_table = [(''dining'', keyword_rule ''coffee'' ''Food & Dining'')],
      rules_file = Holds [(''dining'', keyword_rule ''coffee'' ''Food & Dining'')]\<rparr>"

definition acct_cash :: account where
  "acct_cash = \<lparr>acc_id = 1, acc_name = ''Cash'', acc_balance = 1000, acc_is_active = True\<rparr>"

definition ledger_edit :: session where
  "ledger_edit =
     \<lparr>categories = [], accounts = [acct_cash],
      transactions = [created_row 5 (midnight 2024 2 10) 100 INCOME 7],
      budgets = []\<rparr>"

definition to_expense :: transaction_update where
  "to_expense =
     \<lparr>upd_timestamp = None, upd_amount = None,
      upd_transaction_type = Some (Some EXPENSE), upd_category_id = None,
      upd_merchant = None, upd_description = None\<rparr>"

definition to_income_150 :: transaction_update where
  "to_income_150 =
     \<lparr>upd_timestamp = None, upd_amount = Some (Some 150),
      upd_transaction_type = Some (Some INCOME), upd_category_id = None,
      upd_merchant = None, upd_description = None\<rparr>"

text \<open>The ledger after the first edit, which makes the stored income an expense.\<close>

definition ledger_edited :: session where
  "ledger_edited = snd (update_transaction 5 to_expense ledger_edit)"



section \<open>Properties\<close>

subsection \<open>Budget status\<close>

lemma py_round_zero: "py_round 0 n = 0"
  by (simp add: py_round_def round_half_even_def)

text \<open>
  Claim C1, as amended. For a budget with \<open>amount_limit > 0\<close> and an alert threshold in
  \<open>[0.1, 1.0]\<close> the entry is derived without an exception, and its status is
  \<open>over_budget\<close> exactly when the percentage used, \<open>current_spend / amount_limit * 100\<close>,
  is strictly greater than 100, \<open>near_limit\<close> exactly when the percentage is at least
  \<open>alert_threshold * 100\<close> and at most 100, and \<open>on_track\<close> otherwise. A budget whose
  spend equals its limit, at exactly 100 percent, is \<open>near_limit\<close>.
\<close>

theorem budget_status_derivation:
  assumes "bud_amount_limit b > 0"
    and "1 / 10 \<le> bud_alert_threshold b" and "bud_alert_threshold b \<le> 1"
  shows "\<exists>info. budget_entry b cname spend = Inr info \<and>
           (bi_status info = Over_budget \<longleftrightarrow> spend / bud_amount_limit b * 100 > 100) \<and>
           (bi_status info = Near_limit \<longleftrightarrow>
              bud_alert_threshold b * 100 \<le> spend / bud_amount_limit b * 100 \<and>
              spend / bud_amount_limit b * 100 \<le> 100) \<and>
           (bi_status info = On_track \<longleftrightarrow>
              spend / bud_amount_limit b * 100 < bud_alert_threshold b * 100) \<and>
           (spend = bud_amount_limit b \<longrightarrow> bi_status info = Near_limit)"
proof -
  let ?p = "spend / bud_amount_limit b * 100"
  have e: "budget_entry b cname spend =
             Inr \<lparr>bi_id = bud_id b,
               bi_category = (case cname of Some n \<Rightarrow> n | None \<Rightarrow> ''Unknown''),
               bi_budget_limit = bud_amount_limit b,
               bi_amount_spent = spend,
               bi_remaining = bud_amount_limit b - spend,
               bi_percentage_used = py_round ?p 1,
               bi_status = derive_status ?p (bud_alert_threshold b)\<rparr>"
    using assms(1)
    by (simp add: budget_entry_def budget_entry_with_def percentage_used_with_def truediv_def)
  have t: "bud_alert_threshold b * 100 \<le> 100" using assms(3) by simp
  have s1: "derive_status ?p (bud_alert_threshold b) = Over_budget \<longleftrightarrow> ?p > 100"
    by (simp add: derive_status_def)
  have s2: "derive_status ?p (bud_alert_threshold b) = Near_limit \<longleftrightarrow>
              bud_alert_threshold b * 100 \<le> ?p \<and> ?p \<le> 100"
    by (auto simp: derive_status_def)
  have s3: "derive_status ?p (bud_alert_threshold b) = On_track \<longleftrightarrow>
              ?p < bud_alert_threshold b * 100"
    using t by (auto simp: derive_status_def)
  have s4: "spend = bud_amount_limit b \<longrightarrow>
              derive_status ?p (bud_alert_threshold b) = Near_limit"
  proof
    assume "spend = bud_amount_limit b"
    then have "?p = 100" using assms(1) by simp
    then show "derive_status ?p (bud_alert_threshold b) = Near_limit"
      using t by (simp add: derive_status_def)
  qed
  from e obtain info where i: "budget_entry b cname spend = Inr info"
    and st: "bi_status info = derive_status ?p (bud_alert_threshold b)"
    by simp
  show ?thesis
  proof (intro exI conjI)
    show "budget_entry b cname spend = Inr info" by (rule i)
    show "bi_status info = Over_budget \<longleftrightarrow> ?p > 100" unfolding st by (rule s1)
    show "bi_status info = Near_limit \<longleftrightarrow>
            bud_alert_threshold b * 100 \<le> ?p \<and> ?p \<le> 100" unfolding st by (rule s2)
    show "bi_status info = On_track \<longleftrightarrow> ?p < bud_alert_threshold b * 100"
      unfolding st by (rule s3)
    show "spend = bud_amount_limit b \<longrightarrow> bi_status info = Near_limit"
      unfolding st by (rule s4)
  qed
qed

text \<open>
  The theorem at limit 1000 and threshold 0.8: \<open>near_limit\<close> at spend 800 and at spend
  1000, \<open>over_budget\<close> at spend 1001.
\<close>

theorem budget_status_derivation_witness:
  "0 < bud_amount_limit budget_1000 \<and> 1 / 10 \<le> bud_alert_threshold budget_1000 \<and>
   bud_alert_threshold budget_1000 \<le> 1 \<and>
   (\<exists>info. budget_entry budget_1000 None 800 = Inr info \<and> bi_status info = Near_limit) \<and>
   (\<exists>info. budget_entry budget_1000 None 1000 = Inr info \<and> bi_status info = Near_limit) \<and>
   (\<exists>info. budget_entry budget_1000 None 1001 = Inr info \<and> bi_status info = Over_budget)"
proof -
  have h: "0 < bud_amount_limit budget_1000" "1 / 10 \<le> bud_alert_threshold budget_1000"
    "bud_alert_threshold budget_1000 \<le> 1"
    by (simp_all add: budget_1000_def)
  have l: "bud_amount_limit budget_1000 = 1000" "bud_alert_threshold budget_1000 = 4 / 5"
    by (simp_all add: budget_1000_def)
  have a: "\<exists>info. budget_entry budget_1000 None 800 = Inr info \<and> bi_status info = Near_limit"
    using budget_status_derivation [OF h, of None 800] by (auto simp: l)
  have b: "\<exists>info. budget_entry budget_1000 None 1000 = Inr info \<and> bi_status info = Near_limit"
    using budget_status_derivation [OF h, of None 1000] by (auto simp: l)
  have c: "\<exists>info. budget_entry budget_1000 None 1001 = Inr info \<and> bi_status info = Over_budget"
    using budget_status_derivation [OF h, of None 1001] by (auto simp: l)
  show ?thesis using h a b c by (intro conjI)
qed

text \<open>
  The claim as stated fails at limit 1000 and spend 1000: the percentage is exactly 100,
  which is not strictly greater than 100, and the status is \<open>near_limit\<close>, not
  \<open>over_budget\<close>.
\<close>

theorem exactly_at_limit_counterexample:
  "map_sum id bi_status (budget_entry budget_1000 None 1000) = Inr Near_limit \<and>
   map_sum id bi_status (budget_entry budget_1000 None 1000) \<noteq> Inr Over_budget \<and>
   percentage_used 1000 1000 = Inr 100"
  by (simp add: budget_1000_def budget_entry_def budget_entry_with_def percentage_used_def
      percentage_used_with_def truediv_def derive_status_def)

text \<open>
  Claim C8. For a budget with \<open>amount_limit \<le> 0\<close> and any current spend the percentage
  used is 0 and the entry, with its status, is derived without an exception. This holds
  for every division operator \<open>dv\<close>, also one that raises on each call: the division is
  not carried out. The budget's own entry is the instance \<^term>\<open>truediv\<close>.
\<close>

theorem non_positive_limit_guarded:
  assumes "bud_amount_limit b \<le> 0"
  shows "percentage_used_with dv (bud_amount_limit b) spend = Inr 0 \<and>
         (\<exists>info. budget_entry_with dv b cname spend = Inr info \<and>
                  budget_entry b cname spend = Inr info \<and>
                  bi_percentage_used info = 0 \<and>
                  bi_status info = derive_status 0 (bud_alert_threshold b))"
  using assms
  by (simp add: budget_entry_def budget_entry_with_def percentage_used_with_def py_round_zero)

text \<open>The theorem at limit 0 and spend 50, with a division that always raises.\<close>

theorem non_positive_limit_guarded_witness:
  "bud_amount_limit budget_zero_limit \<le> 0 \<and>
   percentage_used_with (\<lambda>a b. Inl ZeroDivisionError) 0 50 = Inr 0 \<and>
   (\<exists>info. budget_entry budget_zero_limit None 50 = Inr info \<and>
            bi_percentage_used info = 0 \<and> bi_status info = On_track)"
proof -
  have l: "bud_amount_limit budget_zero_limit \<le> 0"
    by (simp add: budget_zero_limit_def)
  have "bud_amount_limit budget_zero_limit = 0"
    and "derive_status 0 (bud_alert_threshold budget_zero_limit) = On_track"
    by (simp_all add: budget_zero_limit_def budget_1000_def derive_status_def)
  then show ?thesis
    using l non_positive_limit_guarded [OF l, of "\<lambda>a b. Inl ZeroDivisionError" 50 None]
    by auto
qed

subsection \<open>Spend aggregation\<close>

lemma digit_not_dash: "is_digit c \<Longrightarrow> c \<noteq> CHR ''-''"
  by (auto simp: is_digit_def)

lemma digit_val_le: "is_digit c \<Longrightarrow> digit_val c \<le> 9"
  by (auto simp: is_digit_def digit_val_def)

lemma or_zero_sql_sum: "or_zero (sql_sum xs) = sum_list xs"
  by (simp add: or_zero_def sql_sum_def)

lemma month_form_cases:
  assumes "is_month_form s"
  obtains a b c d e f where "s = [a, b, c, d, CHR ''-'', e, f]"
    and "is_digit a" "is_digit b" "is_digit c" "is_digit d" "is_digit e" "is_digit f"
  using assms
  by (auto simp: is_month_form_def split: list.splits)

lemma parse_month_form:
  assumes "is_month_form s"
  shows "parse_month s = Inr (month_year s, month_number s)"
proof -
  from assms obtain a b c d e f where s: "s = [a, b, c, d, CHR ''-'', e, f]"
    and dg: "is_digit a" "is_digit b" "is_digit c" "is_digit d" "is_digit e" "is_digit f"
    by (rule month_form_cases)
  have sp: "split_on CHR ''-'' s = [[a, b, c, d], [e, f]]"
    using dg [THEN digit_not_dash] by (simp add: s)
  have "parse_month s = Inr (digits_value [a, b, c, d], digits_value [e, f])"
    using dg by (simp add: parse_month_def sp py_int_def digits_value_def)
  moreover have "month_year s = digits_value [a, b, c, d]"
    by (simp add: month_year_def s)
  moreover have "month_number s = digits_value [e, f]"
    by (simp add: month_number_def s)
  ultimately show ?thesis by simp
qed

lemma month_year_le:
  assumes "is_month_form s"
  shows "month_year s \<le> 9999"
proof -
  from assms obtain a b c d e f where s: "s = [a, b, c, d, CHR ''-'', e, f]"
    and dg: "is_digit a" "is_digit b" "is_digit c" "is_digit d" "is_digit e" "is_digit f"
    by (rule month_form_cases)
  show ?thesis
    using digit_val_le [OF dg(1)] digit_val_le [OF dg(2)] digit_val_le [OF dg(3)]
      digit_val_le [OF dg(4)]
    by (simp add: month_year_def digits_value_def s)
qed

lemma date_range_in_reach:
  assumes "is_month_form s" and "month_in_reach (month_year s) (month_number s)"
  shows "date_range s = Inr (first_day_of_month (month_year s) (month_number s),
                             first_day_of_next_month (month_year s) (month_number s))"
  using assms(2)
  by (auto simp: date_range_def parse_month_form [OF assms(1)] datetime_ymd_def
      month_in_reach_def first_day_of_month_def first_day_of_next_month_def midnight_def
      days_in_month_def)

lemma date_range_out_of_reach:
  assumes "is_month_form s" and "\<not> month_in_reach (month_year s) (month_number s)"
  shows "\<exists>e. date_range s = Inl e"
  using assms(2) month_year_le [OF assms(1)]
  by (auto simp: date_range_def parse_month_form [OF assms(1)] datetime_ymd_def
      month_in_reach_def days_in_month_def)

text \<open>
  On the timestamps that a \<^verbatim>\<open>datetime\<close> can hold, the half-open range of a month
  selects the timestamps of that year and month, and no others.
\<close>

lemma in_month_range_iff:
  assumes "valid_datetime t" and "1 \<le> m" and "m \<le> 12"
  shows "in_month_range y m t \<longleftrightarrow> dt_year t = y \<and> dt_month t = m"
  using assms
  by (auto simp: in_month_range_def first_day_of_month_def first_day_of_next_month_def
      midnight_def dt_le_def dt_less_def dt_fields_def valid_datetime_def)


lemma numbers_2024_02: "month_year ''2024-02'' = 2024" "month_number ''2024-02'' = 2"
  by (simp_all add: month_year_def month_number_def digits_value_def digit_val_def)

lemma normalize_type_name: "normalize_type ty = type_name ty"
  by (cases ty) (hypsubst, code_simp)+

lemma enum_load_name: "enum_load (type_name ty) = Inr ty"
  by (cases ty) (simp_all add: enum_load_def)

lemma enum_load_value: "enum_load (type_value ty) = Inl LookupError"
  by (cases ty) (simp_all add: enum_load_def)

lemma loadable_not_expense_text:
  assumes "enum_load s = Inr ty"
  shows "s \<noteq> ''expense''"
  using assms by (auto simp: enum_load_def)

text \<open>
  What the aggregation sums, for a month from 0001-01 to 9999-11: the amounts of the
  category's rows in the month's range whose type column holds the text
  \<^verbatim>\<open>expense\<close>.
\<close>

lemma calculate_current_spending_counts:
  assumes "is_month_form month"
    and "month_in_reach (month_year month) (month_number month)"
  shows "calculate_current_spending db category_id month =
           sum_list (map tx_amount
             (filter (\<lambda>t. tx_category_id t = Some category_id \<and> tx_type t = ''expense'' \<and>
                          in_month_range (month_year month) (month_number month) (tx_timestamp t))
                (transactions db)))"
proof -
  have "spending_row category_id (first_day_of_month (month_year month) (month_number month))
          (first_day_of_next_month (month_year month) (month_number month)) =
        (\<lambda>t. tx_category_id t = Some category_id \<and> tx_type t = ''expense'' \<and>
              in_month_range (month_year month) (month_number month) (tx_timestamp t))"
    by (rule ext) (simp add: spending_row_def in_month_range_def)
  then show ?thesis
    by (simp add: calculate_current_spending_def date_range_in_reach [OF assms]
        or_zero_sql_sum)
qed

text \<open>
  On a ledger whose rows the ORM can load, so on every ledger that
  \<^verbatim>\<open>create_transaction\<close> has filled, the aggregation finds no row and returns 0, for
  every category and every month string.
\<close>

lemma loadable_rows_not_counted:
  assumes "\<forall>t\<in>set (transactions db). \<exists>ty. enum_load (tx_type t) = Inr ty"
  shows "calculate_current_spending db category_id month = 0"
proof (cases "date_range month")
  case (Inl e)
  then show ?thesis by (simp add: calculate_current_spending_def)
next
  case (Inr r)
  obtain start_date end_date where r: "r = (start_date, end_date)" by (cases r)
  have "filter (spending_row category_id start_date end_date) (transactions db) = []"
    using assms by (auto simp: filter_empty_conv spending_row_def dest: loadable_not_expense_text)
  then show ?thesis
    by (simp add: calculate_current_spending_def Inr r or_zero_sql_sum)
qed

lemma date_range_2024_02:
  "date_range ''2024-02'' = Inr (midnight 2024 2 1, midnight 2024 3 1)"
  by (simp add: date_range_def parse_month_def py_int_def is_digit_def digit_val_def
      datetime_ymd_def days_in_month_def midnight_def)

text \<open>
  Claim C3, at the input where the code departs from it. The ledger holds four
  transactions of category 7 as \<^verbatim>\<open>create_transaction\<close> stores them: expenses of 30 and
  12 in February 2024, an expense of 70 at \<^verbatim>\<open>2024-03-01T00:00:00\<close> and an income in
  February. Their type column holds the member's name, \<^verbatim>\<open>EXPENSE\<close> or \<^verbatim>\<open>INCOME\<close>.
  By the claim the spend of category 7 in \<^verbatim>\<open>2024-02\<close> is the sum of the expenses in
  the month's range, 42. The query compares the column with the string \<^verbatim>\<open>expense\<close>,
  which no such row holds, and the aggregation returns 0.
\<close>

theorem created_expenses_failing_input:
  "map tx_type (transactions ledger_2024) = [''EXPENSE'', ''EXPENSE'', ''INCOME'', ''EXPENSE''] \<and>
   sum_list (map tx_amount (filter (month_spend_row 7 2024 2) (transactions ledger_2024))) = 42 \<and>
   calculate_current_spending ledger_2024 7 ''2024-02'' = 0"
  by (simp add: ledger_2024_def created_row_def row_at_def normalize_type_name
      month_spend_row_def is_expense_row_def in_month_range_def first_day_of_month_def
      first_day_of_next_month_def midnight_def dt_le_def dt_less_def dt_fields_def
      calculate_current_spending_def date_range_2024_02 spending_row_def or_zero_def
      sql_sum_def)

text \<open>
  A second departure, at the last month of the calendar: for \<^verbatim>\<open>9999-12\<close> the upper
  bound \<^verbatim>\<open>datetime(10000, 1, 1)\<close> raises, the exception is caught and the aggregation
  returns 0, also over a row that its filter would count.
\<close>

lemma last_december_returns_zero:
  "map tx_type (transactions ledger_9999) = [''expense''] \<and>
   calculate_current_spending ledger_9999 7 ''9999-12'' = 0 \<and>
   sum_list (map tx_amount (filter (month_spend_row 7 9999 12) (transactions ledger_9999))) = 50"
  by (simp add: calculate_current_spending_def date_range_def parse_month_def py_int_def
      is_digit_def digit_val_def datetime_ymd_def days_in_month_def
      ledger_9999_def edited_row_def row_at_def month_spend_row_def is_expense_row_def
      in_month_range_def first_day_of_month_def first_day_of_next_month_def midnight_def
      dt_le_def dt_less_def dt_fields_def)

subsection \<open>Editing a transaction\<close>

lemma find_replace_first:
  "find P xs = Some x \<Longrightarrow> P y \<Longrightarrow> find P (replace_first P y xs) = Some y"
  by (induction xs) (auto split: if_splits)

text \<open>
  On a row that loads as an expense, as \<^verbatim>\<open>create_transaction\<close> stores it, the edit
  to an income does what the specification asks of the balance: it becomes
  \<open>B + A_old + A_new\<close>. The row then holds the text \<^verbatim>\<open>income\<close>, which is the value
  and not the name of the member, and which the ORM cannot load again.
\<close>

lemma update_loaded_expense_to_income:
  assumes "find (\<lambda>t. tx_id t = tid) (transactions db) = Some t"
    and "enum_load (tx_type t) = Inr EXPENSE" and "tx_amount t = A_old"
    and "find (\<lambda>a. acc_id a = tx_account_id t) (accounts db) = Some a"
    and "acc_balance a = B"
    and "upd_amount u = Some (Some A_new)"
    and "upd_transaction_type u = Some (Some INCOME)"
    and "upd_timestamp u \<noteq> Some None"
  shows "\<exists>db' a' t'. update_transaction tid u db = (Inr (), db') \<and>
           find (\<lambda>x. acc_id x = tx_account_id t) (accounts db') = Some a' \<and>
           acc_balance a' = B + A_old + A_new \<and>
           find (\<lambda>x. tx_id x = tid) (transactions db') = Some t' \<and>
           tx_type t' = ''income'' \<and> tx_amount t' = A_new \<and>
           enum_load (tx_type t') = Inl LookupError"
proof -
  obtain ts where ts: "set_field (upd_timestamp u) (Some (tx_timestamp t)) = Some ts"
    using assms(8) by (cases "upd_timestamp u") (auto simp: set_field_def)
  let ?a' = "a\<lparr>acc_balance := B + A_old + A_new\<rparr>"
  let ?t' = "t\<lparr>tx_timestamp := ts, tx_amount := A_new, tx_type := ''income'',
                 tx_category_id := set_field (upd_category_id u) (tx_category_id t),
                 tx_merchant := set_field (upd_merchant u) (tx_merchant t),
                 tx_description := set_field (upd_description u) (tx_description t),
                 tx_is_synced_to_sheets := False\<rparr>"
  let ?db' = "db\<lparr>transactions := replace_first (\<lambda>x. tx_id x = tid) ?t' (transactions db),
                  accounts := replace_first (\<lambda>x. acc_id x = tx_account_id t) ?a' (accounts db)\<rparr>"
  have idt: "tx_id t = tid"
    using assms(1) by (auto simp: find_Some_iff)
  have ida: "acc_id a = tx_account_id t"
    using assms(4) by (auto simp: find_Some_iff)
  have r: "reverse_effect EXPENSE A_old (Some a) = Inr (Some (a\<lparr>acc_balance := B + A_old\<rparr>))"
    by (simp add: reverse_effect_def assms(5))
  have ap: "apply_effect (Some INCOME) (Some A_new) (Some (a\<lparr>acc_balance := B + A_old\<rparr>)) =
              Inr (Some ?a')"
    by (simp add: apply_effect_def)
  have u: "update_transaction tid u db = (Inr (), ?db')"
    by (simp add: update_transaction_def assms(1,2,3,4,6,7) set_field_def r ap
        ts [unfolded set_field_def])
  have fa: "find (\<lambda>x. acc_id x = tx_account_id t) (accounts ?db') = Some ?a'"
    using find_replace_first [OF assms(4), of ?a'] ida by simp
  have ft: "find (\<lambda>x. tx_id x = tid) (transactions ?db') = Some ?t'"
    using find_replace_first [OF assms(1), of ?t'] idt by simp
  have l: "enum_load (tx_type ?t') = Inl LookupError"
    by (simp add: enum_load_def)
  show ?thesis
    using u fa ft l by (intro exI [of _ ?db'] exI [of _ ?a'] exI [of _ ?t']) simp
qed

lemma first_edit:
  "update_transaction 5 to_expense ledger_edit =
     (Inr (),
      \<lparr>categories = [], accounts = [acct_cash\<lparr>acc_balance := 800\<rparr>],
       transactions = [row_at 5 (midnight 2024 2 10) 100 ''expense'' 7],
       budgets = []\<rparr>)"
  by (simp add: update_transaction_def ledger_edit_def created_row_def normalize_type_name
      row_at_def enum_load_def to_expense_def set_field_def acct_cash_def reverse_effect_def
      apply_effect_def)

lemma ledger_edited_eq:
  "ledger_edited =
     \<lparr>categories = [], accounts = [acct_cash\<lparr>acc_balance := 800\<rparr>],
      transactions = [row_at 5 (midnight 2024 2 10) 100 ''expense'' 7],
      budgets = []\<rparr>"
  by (simp add: ledger_edited_def first_edit)

text \<open>
  Claim C4, at the input where the code departs from it. Transaction 5 was created as
  an income of 100 and edited to an expense; the edit succeeded, the row holds the text
  \<^verbatim>\<open>expense\<close> and the account's balance is 800. It is a stored expense of 100 on an
  account with balance 800, so by the claim the edit to an income of 150 leaves the
  balance at 800 + 100 + 150 = 1050. The handler cannot load the row: it answers 500,
  and the session, with the balance of 800, stays as it was.
\<close>

theorem edited_expense_failing_input:
  "fst (update_transaction 5 to_expense ledger_edit) = Inr () \<and>
   map tx_type (transactions ledger_edited) = [type_value EXPENSE] \<and>
   map tx_amount (transactions ledger_edited) = [100] \<and>
   map acc_balance (accounts ledger_edited) = [800] \<and>
   update_transaction 5 to_income_150 ledger_edited = (Inl (HTTPException 500), ledger_edited)"
proof -
  have a: "fst (update_transaction 5 to_expense ledger_edit) = Inr ()"
    by (simp add: first_edit)
  have b: "map tx_type (transactions ledger_edited) = [type_value EXPENSE]"
    "map tx_amount (transactions ledger_edited) = [100]"
    "map acc_balance (accounts ledger_edited) = [800]"
    by (simp_all add: ledger_edited_eq row_at_def)
  have c: "update_transaction 5 to_income_150 ledger_edited =
             (Inl (HTTPException 500), ledger_edited)"
    unfolding ledger_edited_eq
    by (simp add: update_transaction_def row_at_def enum_load_def)
  show ?thesis using a b c by (intro conjI)
qed

text \<open>
  The theorem read at the account: after the refused edit the answer is 500 and the
  balance is still 800, not 1050.
\<close>

theorem edited_expense_failing_input_witness:
  "fst (update_transaction 5 to_income_150 ledger_edited) = Inl (HTTPException 500) \<and>
   map acc_balance (accounts (snd (update_transaction 5 to_income_150 ledger_edited))) = [800]"
  using edited_expense_failing_input by simp

subsection \<open>Categories\<close>




lemma get_or_create_some:
  "\<exists>c d'. get_or_create_category n (Some d) = (Some c, Some d') \<and> cat_name c = n"
proof (cases "find (\<lambda>c. cat_name c = n) (categories d)")
  case None
  then show ?thesis by (simp add: get_or_create_category_def Let_def)
next
  case (Some c)
  then have "cat_name c = n" by (auto simp: find_Some_iff)
  with Some show ?thesis by (simp add: get_or_create_category_def)
qed



subsection \<open>The rule store\<close>

lemma dict_del_set:
  "\<not> dict_has k d \<Longrightarrow> dict_del k (dict_set k v d) = d"
  by (induction d) (auto simp: dict_has_def dict_del_def)

lemma dict_set_new: "\<not> dict_has k d \<Longrightarrow> dict_set k v d = d @ [(k, v)]"
  by (induction d) (auto simp: dict_has_def)

lemma dict_has_set: "dict_has k (dict_set k v d)"
  unfolding dict_has_def by (induction d) force+

text \<open>
  Claim C7. For a rule table \<open>S\<close> and a rule name \<open>n\<close> not present in \<open>S\<close>: after
  \<open>add_rule\<close> the listing is \<open>S\<close> followed by the new rule, and after \<open>delete_rule\<close>
  the table in memory is exactly \<open>S\<close> again. When the write of \<open>delete_rule\<close> succeeds
  the backing file holds the serialisation of \<open>S\<close>, and if it held that before the add,
  the whole state of the store, file and table, is the one before the add.
\<close>

theorem add_then_delete_restores:
  assumes "\<not> dict_has n (rules_table self)"
  shows "get_all_rules (add_custom_rule dump w1 n ks ps cn self) =
           rules_table self @
             [(n, \<lparr>rule_keywords = ks, rule_patterns = ps, rule_category_name = Some cn,
                   rule_transaction_type = None\<rparr>)] \<and>
         get_all_rules (delete_rule dump w2 n (add_custom_rule dump w1 n ks ps cn self)) =
           rules_table self \<and>
         (w2 = Write_ok \<longrightarrow>
            rules_file (delete_rule dump w2 n (add_custom_rule dump w1 n ks ps cn self)) =
              Holds (dump (rules_table self))) \<and>
         (w2 = Write_ok \<and> rules_file self = Holds (dump (rules_table self)) \<longrightarrow>
            delete_rule dump w2 n (add_custom_rule dump w1 n ks ps cn self) = self)"
proof -
  let ?r = "\<lparr>rule_keywords = ks, rule_patterns = ps, rule_category_name = Some cn,
            rule_transaction_type = None\<rparr>"
  have a: "rules_table (add_custom_rule dump w1 n ks ps cn self) = dict_set n ?r (rules_table self)"
    by (simp add: add_custom_rule_def Let_def)
  have d: "delete_rule dump w2 n (add_custom_rule dump w1 n ks ps cn self) =
             \<lparr>rules_table = rules_table self,
              rules_file = write_rules dump w2 (rules_table self)
                 (rules_file (add_custom_rule dump w1 n ks ps cn self))\<rparr>"
    by (simp add: delete_rule_def a dict_has_set dict_del_set [OF assms] Let_def)
  have f: "w2 = Write_ok \<longrightarrow>
             rules_file (delete_rule dump w2 n (add_custom_rule dump w1 n ks ps cn self)) =
               Holds (dump (rules_table self))"
    unfolding d by (simp add: write_rules_def)
  have e: "w2 = Write_ok \<and> rules_file self = Holds (dump (rules_table self)) \<longrightarrow>
             delete_rule dump w2 n (add_custom_rule dump w1 n ks ps cn self) = self"
    unfolding d by (simp add: write_rules_def)
  have g: "get_all_rules (delete_rule dump w2 n (add_custom_rule dump w1 n ks ps cn self)) =
             rules_table self"
    unfolding d by (simp add: get_all_rules_def)
  have h: "get_all_rules (add_custom_rule dump w1 n ks ps cn self) = rules_table self @ [(n, ?r)]"
    by (simp add: get_all_rules_def a dict_set_new [OF assms])
  show ?thesis using h g f e by (intro conjI)
qed

text \<open>
  The theorem on a store of one rule whose file is in step with the table, both writes
  succeeding: adding and deleting the rule \<open>pets\<close> gives the store back.
\<close>

theorem add_then_delete_restores_witness:
  "\<not> dict_has ''pets'' (rules_table store_dining) \<and>
   delete_rule id Write_ok ''pets''
     (add_custom_rule id Write_ok ''pets'' [''vet''] [] ''Pets'' store_dining) = store_dining"
proof -
  have h: "\<not> dict_has ''pets'' (rules_table store_dining)"
    by (simp add: dict_has_def store_dining_def)
  have f: "rules_file store_dining = Holds (id (rules_table store_dining))"
    by (simp add: store_dining_def)
  show ?thesis
    using h f
      add_then_delete_restores [OF h, of id Write_ok "[''vet'']" "[]" "''Pets''" Write_ok]
    by simp
qed

subsection \<open>Matching\<close>

lemma starts_with_iff: "starts_with k t \<longleftrightarrow> (\<exists>ss. t = k @ ss)"
  by (induction k t rule: starts_with.induct) auto

lemma contains_iff: "contains k t \<longleftrightarrow> (\<exists>ps ss. t = ps @ k @ ss)"
proof (induction t)
  case Nil
  then show ?case by simp
next
  case (Cons c cs)
  show ?case
  proof
    assume "contains k (c # cs)"
    then consider "starts_with k (c # cs)" | "contains k cs" by auto
    then show "\<exists>ps ss. c # cs = ps @ k @ ss"
    proof cases
      case 1
      then obtain ss where "c # cs = k @ ss" by (auto simp: starts_with_iff)
      then have "c # cs = [] @ k @ ss" by simp
      then show ?thesis by blast
    next
      case 2
      with Cons obtain ps ss where "cs = ps @ k @ ss" by blast
      then have "c # cs = (c # ps) @ k @ ss" by simp
      then show ?thesis by blast
    qed
  next
    assume "\<exists>ps ss. c # cs = ps @ k @ ss"
    then obtain ps ss where e: "c # cs = ps @ k @ ss" by blast
    show "contains k (c # cs)"
    proof (cases ps)
      case Nil
      with e have "starts_with k (c # cs)" by (auto simp: starts_with_iff)
      then show ?thesis by simp
    next
      case (Cons p ps')
      with e have "cs = ps' @ k @ ss" by simp
      with Cons.IH have "contains k cs" by blast
      then show ?thesis by simp
    qed
  qed
qed

lemma search_patterns_total:
  assumes "\<forall>p\<in>set ps. \<exists>b. re_search (lower p) text = Inr b"
  shows "search_patterns re_search text ps =
           Inr (\<exists>p\<in>set ps. re_search (lower p) text = Inr True)"
  using assms
  by (induction ps) (auto split: sum.splits)

text \<open>
  What the matcher computes when its patterns compile: a keyword, lowercased, occurs in
  the text, or a pattern, lowercased, is found in the text. No other field of the rule
  is read. The pattern that is searched is the lowercased one, not the configured one.
\<close>

lemma matches_rule_computes:
  assumes "\<forall>p\<in>set (rule_patterns r). \<exists>b. re_search (lower p) text = Inr b"
  shows "matches_rule re_search text r =
           Inr ((\<exists>k\<in>set (rule_keywords r). \<exists>ps ss. text = ps @ lower k @ ss) \<or>
                (\<exists>p\<in>set (rule_patterns r). re_search (lower p) text = Inr True))"
  using search_patterns_total [of "rule_patterns r" re_search "text"] assms
  by (auto simp: matches_rule_def list_ex_iff contains_iff)

text \<open>
  Claim C5, at the input where the code departs from it. The rule has the one pattern
  \<^verbatim>\<open>\D\<close> and no keyword; the text is \<^verbatim>\<open>5\<close>. As configured the pattern finds no
  match in the text, so by the claim the rule does not match. The code searches the
  lowercased pattern \<^verbatim>\<open>\d\<close>, which finds the digit: the rule matches, and
  classification of a transaction whose merchant is \<^verbatim>\<open>5\<close> returns the rule's category.
\<close>

theorem non_digit_pattern_failing_input:
  "re_search_fragment pattern_non_digit ''5'' = Inr False \<and>
   re_search_fragment (lower pattern_non_digit) ''5'' = Inr True \<and>
   matches_rule re_search_fragment ''5'' rule_non_digit = Inr True \<and>
   fst (categorize_transaction re_search_fragment [(''reference'', rule_non_digit)]
          (Some ''5'') None 10 (Some session_empty)) = Inr (Some 1)"
  by code_simp

subsection \<open>Classification\<close>

lemma scan_rules_skip:
  assumes "\<forall>kr\<in>set pre. passed_over re_search text (snd kr)"
  shows "scan_rules re_search text (pre @ rest) db = scan_rules re_search text rest db"
  using assms
  by (induction pre) (auto simp: passed_over_def)

lemma strip_lower_blank: "strip (lower '' '') = []"
  by code_simp

lemma falsy_text:
  assumes "\<not> truthy merchant" and "\<not> truthy description"
  shows "text_to_analyze merchant description = []"
proof -
  have "or_empty merchant = []" "or_empty description = []"
    using assms by (auto simp: truthy_def or_empty_def split: option.splits)
  then show ?thesis
    by (simp add: text_to_analyze_def strip_lower_blank)
qed

text \<open>
  Claim C2, as amended. For every rule table and every non-empty classification text,
  with a session: when a rule matches the text and has a non-empty category name, and
  every rule before it in the table's order is passed over (it does not match, or it
  matches and has no category name), classification returns the id of the category
  resolved from that rule's category name. The rules after it are not consulted,
  whatever they match.
\<close>

theorem first_named_match_wins:
  assumes "text_to_analyze merchant description \<noteq> []"
    and "rs = pre @ (key, rule) # post"
    and "\<forall>kr\<in>set pre. passed_over re_search (text_to_analyze merchant description) (snd kr)"
    and "matches_rule re_search (text_to_analyze merchant description) rule = Inr True"
    and "truthy (rule_category_name rule)"
  shows "\<exists>c d'. get_or_create_category (or_empty (rule_category_name rule)) (Some d) =
                   (Some c, Some d') \<and>
                 cat_name c = or_empty (rule_category_name rule) \<and>
                 categorize_transaction re_search rs merchant description amount (Some d) =
                   (Inr (Some (cat_id c)), Some d')"
proof -
  let ?text = "text_to_analyze merchant description"
  from get_or_create_some obtain c d' where
    g: "get_or_create_category (or_empty (rule_category_name rule)) (Some d) = (Some c, Some d')"
    and n: "cat_name c = or_empty (rule_category_name rule)"
    by blast
  have t: "truthy merchant \<or> truthy description"
    using assms(1) falsy_text by blast
  have "scan_rules re_search ?text rs (Some d) =
          scan_rules re_search ?text ((key, rule) # post) (Some d)"
    unfolding assms(2) using assms(3) by (rule scan_rules_skip)
  also have "\<dots> = (Inr (Some (cat_id c)), Some d')"
    by (simp add: assms(4,5) g)
  finally have "categorize_transaction re_search rs merchant description amount (Some d) =
                  (Inr (Some (cat_id c)), Some d')"
    using t assms(1) by (auto simp: categorize_transaction_def)
  with g n show ?thesis by blast
qed

lemma text_coffee_shop: "text_to_analyze (Some ''Coffee Shop'') None = ''coffee shop''"
  by code_simp

lemma petrol_no_match:
  "matches_rule re_search_fragment ''coffee shop'' (keyword_rule ''petrol'' ''Transportation'') =
     Inr False"
  by code_simp

lemma coffee_match:
  "matches_rule re_search_fragment ''coffee shop'' (keyword_rule ''coffee'' ''Food & Dining'') =
     Inr True"
  by code_simp

text \<open>
  The theorem on a table of three rules and the merchant \<^verbatim>\<open>Coffee Shop\<close>: the first
  rule does not match, the second matches and names a category, whose id is returned;
  the third, which matches too, is not consulted.
\<close>

theorem first_named_match_wins_witness:
  "\<exists>(c::category) d'. cat_name c = ''Food & Dining'' \<and>
     categorize_transaction re_search_fragment rules_two_named (Some ''Coffee Shop'') None 25
       (Some session_empty) = (Inr (Some (cat_id c)), Some d')"
proof -
  have "\<exists>c d'. get_or_create_category
                  (or_empty (rule_category_name (keyword_rule ''coffee'' ''Food & Dining'')))
                  (Some session_empty) = (Some c, Some d') \<and>
                 cat_name c =
                   or_empty (rule_category_name (keyword_rule ''coffee'' ''Food & Dining'')) \<and>
                 categorize_transaction re_search_fragment rules_two_named (Some ''Coffee Shop'')
                   None 25 (Some session_empty) = (Inr (Some (cat_id c)), Some d')"
  proof (rule first_named_match_wins)
    show "text_to_analyze (Some ''Coffee Shop'') None \<noteq> []"
      by (simp add: text_coffee_shop)
    show "rules_two_named = [(''fuel'', keyword_rule ''petrol'' ''Transportation'')] @
            (''dining'', keyword_rule ''coffee'' ''Food & Dining'') #
            [(''shops'', keyword_rule ''shop'' ''Shopping'')]"
      by (simp add: rules_two_named_def)
    show "\<forall>kr\<in>set [(''fuel'', keyword_rule ''petrol'' ''Transportation'')].
            passed_over re_search_fragment (text_to_analyze (Some ''Coffee Shop'') None) (snd kr)"
      by (simp add: text_coffee_shop passed_over_def petrol_no_match)
    show "matches_rule re_search_fragment (text_to_analyze (Some ''Coffee Shop'') None)
            (keyword_rule ''coffee'' ''Food & Dining'') = Inr True"
      unfolding text_coffee_shop by (rule coffee_match)
    show "truthy (rule_category_name (keyword_rule ''coffee'' ''Food & Dining''))"
      by (simp add: keyword_rule_def truthy_def)
  qed
  then show ?thesis
  proof (elim exE conjE)
    fix c :: category and d' :: session
    assume n: "cat_name c =
                 or_empty (rule_category_name (keyword_rule ''coffee'' ''Food & Dining''))"
      and r: "categorize_transaction re_search_fragment rules_two_named (Some ''Coffee Shop'')
                None 25 (Some session_empty) = (Inr (Some (cat_id c)), Some d')"
    from n have n': "cat_name c = ''Food & Dining''"
      by (simp add: keyword_rule_def or_empty_def)
    from n' r show ?thesis by blast
  qed
qed

text \<open>
  The claim as stated fails on a table whose first rule matches the text and has an
  empty category name, followed by a rule that matches too: classification returns the
  id of the category of the later rule, which it creates.
\<close>

theorem unnamed_rule_counterexample:
  "matches_rule re_search_fragment (text_to_analyze (Some ''Coffee Shop'') None)
     (keyword_rule ''coffee'' []) = Inr True \<and>
   categorize_transaction re_search_fragment rules_unnamed_first (Some ''Coffee Shop'') None 25
     (Some session_empty) =
     (Inr (Some 1),
      Some (session_empty\<lparr>categories :=
        [\<lparr>cat_id = 1, cat_name = ''Food & Dining'', cat_parent_id = None, cat_icon = None,
          cat_color = None, cat_is_active = True\<rparr>]\<rparr>))"
  by code_simp

lemma space_lower: "is_space c \<Longrightarrow> lower_char c = c"
  by (auto simp: is_space_def lower_char_def Let_def)

lemma strip_spaces:
  assumes "\<forall>c\<in>set s. is_space c"
  shows "strip s = []"
  using assms by (auto simp: strip_def dest: set_dropWhileD)

text \<open>
  Claim C9. When merchant and description are both absent, empty or made of whitespace
  only, classification returns no category and leaves the session as it is, for every
  amount, every rule table and every regular-expression engine.
\<close>

theorem blank_text_no_match:
  assumes "\<forall>c\<in>set (or_empty merchant). is_space c"
    and "\<forall>c\<in>set (or_empty description). is_space c"
  shows "categorize_transaction re_search rs merchant description amount db = (Inr None, db)"
proof -
  have "\<forall>c\<in>set (lower (or_empty merchant @ '' '' @ or_empty description)). is_space c"
    using assms by (auto simp: lower_def space_lower is_space_def)
  then have "text_to_analyze merchant description = []"
    unfolding text_to_analyze_def by (rule strip_spaces)
  then show ?thesis by (simp add: categorize_transaction_def)
qed

text \<open>The theorem at a merchant of two blanks, no description and the amount 100.\<close>

theorem blank_text_no_match_witness:
  "is_space CHR '' '' \<and>
   categorize_transaction re_search_fragment rules_two_named (Some ''  '') None 100
     (Some session_empty) = (Inr None, Some session_empty)"
proof -
  have s: "is_space CHR '' ''"
    by (simp add: is_space_def)
  have a: "\<forall>c\<in>set (or_empty (Some ''  '')). is_space c"
    using s by (simp add: or_empty_def)
  have b: "\<forall>c\<in>set (or_empty None). is_space c"
    by (simp add: or_empty_def)
  show ?thesis
    using s blank_text_no_match [OF a b] by simp
qed

subsection \<open>The budget response\<close>




















end
